theory Spec2Isabelle
  imports Complex_Main
begin

section \<open>Timer.py: a start/stop timer with a shared registry of named totals\<close>

text \<open>
  The development embeds the class \<^verbatim>\<open>Timer\<close> of \<^verbatim>\<open>Timer.py\<close>: its constructor, the
  methods \<^verbatim>\<open>start\<close>, \<^verbatim>\<open>stop\<close>, \<^verbatim>\<open>report_saved_timer\<close>, \<^verbatim>\<open>report\<close>, the context-manager
  protocol (\<^verbatim>\<open>__enter__\<close>, \<^verbatim>\<open>__exit__\<close>) and the decorator (\<^verbatim>\<open>__call__\<close>).

  Conventions of the embedding.
  \<^item> A method takes the state it can touch (the class attribute \<^verbatim>\<open>Timer.timers\<close> and the
    instance \<^verbatim>\<open>self\<close>) and returns its outcome together with the state it leaves.
  \<^item> An exception is a value: the outcome is \<open>Inl e\<close> when the method raises \<open>e\<close> and
    \<open>Inr v\<close> when it returns \<open>v\<close>.
  \<^item> Python values are dynamically typed, and two lines of the source apply an operator
    to operands of types it does not accept. The values that occur are therefore tagged
    (\<open>pyval\<close>), and \<^verbatim>\<open>-\<close> and \<^verbatim>\<open>+\<close> are the partial operations \<open>py_sub\<close> and \<open>py_add\<close>.
  \<^item> A Python float is idealised as a real number. No theorem below depends on float
    arithmetic or rounding.
  \<^item> The reading returned by \<^verbatim>\<open>time.perf_counter()\<close> is an argument \<open>now\<close> of the method
    that takes it.
  \<^item> The methods are modelled as they stand in the class body. Line 11 of the module,
    \<^verbatim>\<open>import functools.wraps\<close>, names a function where Python expects a module, and
    Python refuses such an import. The embedding describes the class under the reading
    that the line binds \<^verbatim>\<open>functools\<close>, as \<^verbatim>\<open>import functools\<close> does.
\<close>

subsection \<open>Exceptions and values\<close>

text \<open>
  \<^verbatim>\<open>TimerError\<close> is the module's only exception class; the three ways it is raised differ
  in their message. The other constructors are the built-in exceptions the method bodies
  can raise, and \<open>Raised\<close> stands for an exception raised by the caller's own code (the
  body of a \<^verbatim>\<open>with\<close> block, a decorated function).
\<close>

datatype error =
    TimerError string
  | TypeError
  | AttributeError string
  | UnboundLocalError string
  | KeyError string
  | Raised string

datatype pyval =
    PyInt int
  | PyFloat real
  | PyStr string
  | PyBuiltin string

text \<open>The messages of the three \<^verbatim>\<open>raise TimerError(...)\<close> statements (lines 50, 63, 91).\<close>

definition AlreadyRunning :: error where
  "AlreadyRunning = TimerError ''Timer is running. Use .stop() to stop it''"

definition NotRunning :: error where
  "NotRunning = TimerError ''Timer is not running. Use .start() to start it.''"

definition UnknownTimer :: "string \<Rightarrow> error" where
  "UnknownTimer name = TimerError (''No timer called '' @ name @ '' found.'')"

text \<open>
  Binary \<^verbatim>\<open>-\<close> and \<^verbatim>\<open>+\<close>. Numbers subtract and add (an int meeting a float is converted),
  strings concatenate, and every other pair of operands raises \<^verbatim>\<open>TypeError\<close>: a built-in
  function object such as \<^verbatim>\<open>time.perf_counter\<close> supports neither operator.
\<close>

fun py_sub :: "pyval \<Rightarrow> pyval \<Rightarrow> error + pyval" where
  "py_sub (PyInt a) (PyInt b) = Inr (PyInt (a - b))"
| "py_sub (PyInt a) (PyFloat b) = Inr (PyFloat (of_int a - b))"
| "py_sub (PyFloat a) (PyInt b) = Inr (PyFloat (a - of_int b))"
| "py_sub (PyFloat a) (PyFloat b) = Inr (PyFloat (a - b))"
| "py_sub _ _ = Inl TypeError"

fun py_add :: "pyval \<Rightarrow> pyval \<Rightarrow> error + pyval" where
  "py_add (PyInt a) (PyInt b) = Inr (PyInt (a + b))"
| "py_add (PyInt a) (PyFloat b) = Inr (PyFloat (of_int a + b))"
| "py_add (PyFloat a) (PyInt b) = Inr (PyFloat (a + of_int b))"
| "py_add (PyFloat a) (PyFloat b) = Inr (PyFloat (a + b))"
| "py_add (PyStr a) (PyStr b) = Inr (PyStr (a @ b))"
| "py_add _ _ = Inl TypeError"

text \<open>
  \<^verbatim>\<open>str(v)\<close>, as an f-string field \<^verbatim>\<open>{v}\<close> renders a value. The decimal rendering of an
  int is computed; the rendering of a float is Python's own and is taken as the parameter
  \<open>fstr\<close>.
\<close>

fun str_nat :: "nat \<Rightarrow> string" where
  "str_nat n =
     (if n < 10 then [''0123456789'' ! n]
      else str_nat (n div 10) @ [''0123456789'' ! (n mod 10)])"

declare str_nat.simps [simp del]

definition str_int :: "int \<Rightarrow> string" where
  "str_int i = (if i < 0 then CHR ''-'' # str_nat (nat (- i)) else str_nat (nat i))"

fun py_str :: "(real \<Rightarrow> string) \<Rightarrow> pyval \<Rightarrow> string" where
  "py_str fstr (PyInt i) = str_int i"
| "py_str fstr (PyFloat r) = fstr r"
| "py_str fstr (PyStr s) = s"
| "py_str fstr (PyBuiltin f) = ''<built-in function '' @ f @ ''>''"

subsection \<open>The dictionary \<^verbatim>\<open>Timer.timers\<close>\<close>

text \<open>
  A Python dict iterates in insertion order, and \<^verbatim>\<open>report\<close> depends on that order, so the
  dictionary is an association list with each key at most once, oldest entry first.
\<close>

type_synonym pydict = "(string \<times> pyval) list"

definition dict_get :: "pydict \<Rightarrow> string \<Rightarrow> pyval option" where
  "dict_get d k = map_of d k"

text \<open>\<^verbatim>\<open>d.setdefault(k, v)\<close>: a new key is appended, a present key keeps its value.\<close>

definition setdefault :: "pydict \<Rightarrow> string \<Rightarrow> pyval \<Rightarrow> pydict" where
  "setdefault d k v = (case dict_get d k of None \<Rightarrow> d @ [(k, v)] | Some _ \<Rightarrow> d)"

text \<open>\<^verbatim>\<open>d[k] = v\<close>: a present key keeps its position, a new key is appended.\<close>

fun dict_set :: "pydict \<Rightarrow> string \<Rightarrow> pyval \<Rightarrow> pydict" where
  "dict_set [] k v = [(k, v)]"
| "dict_set ((k', v') # d) k v =
     (if k' = k then (k, v) # d else (k', v') # dict_set d k v)"

subsection \<open>The instance and the state\<close>

text \<open>
  The four attributes \<^verbatim>\<open>__init__\<close> sets: \<^verbatim>\<open>_start_time\<close> (\<^verbatim>\<open>None\<close> or a clock reading),
  \<^verbatim>\<open>_name\<close> (\<^verbatim>\<open>None\<close> or a string), \<^verbatim>\<open>_text\<close>, and \<^verbatim>\<open>_logger\<close>. The logger is only ever tested
  for truth by the code that can run, so the field records whether a (truthy) logger was
  given.
\<close>

record timer =
  self_start_time :: "real option"
  self_name :: "string option"
  self_text :: string
  self_logger :: bool

record state =
  timers :: pydict
  self :: timer

text \<open>Truth value of the \<^verbatim>\<open>name\<close> argument: \<^verbatim>\<open>None\<close> and the empty string are false.\<close>

fun truthy_name :: "string option \<Rightarrow> bool" where
  "truthy_name None = False"
| "truthy_name (Some n) = (n \<noteq> [])"

subsection \<open>The methods\<close>

text \<open>
  \<^verbatim>\<open>__init__\<close> (lines 17-24), run on the dictionary \<open>d\<close>: the new instance is idle, and a
  truthy name is entered into the dictionary with \<^verbatim>\<open>setdefault(name, 0)\<close>.
\<close>

definition init :: "string option \<Rightarrow> string \<Rightarrow> bool \<Rightarrow> pydict \<Rightarrow> state" where
  "init name text logger d =
     \<lparr> timers = (if truthy_name name then setdefault d (the name) (PyInt 0) else d),
       self = \<lparr> self_start_time = None, self_name = name,
                self_text = text, self_logger = logger \<rparr> \<rparr>"

text \<open>\<^verbatim>\<open>start\<close> (lines 44-52).\<close>

definition start :: "real \<Rightarrow> state \<Rightarrow> (error + unit) \<times> state" where
  "start now s =
     (if self_start_time (self s) \<noteq> None then (Inl AlreadyRunning, s)
      else (Inr (), s\<lparr> self := (self s)\<lparr> self_start_time := Some now \<rparr> \<rparr>))"

text \<open>
  \<^verbatim>\<open>stop\<close> (lines 54-74), statement by statement.
  \<^item> Line 62: an idle timer raises \<^verbatim>\<open>TimerError\<close>.
  \<^item> Line 66 subtracts the stored reading from \<^verbatim>\<open>time.perf_counter\<close>, the function
    object itself (it is not called).
  \<^item> Line 68-69: with a logger, the call \<^verbatim>\<open>self.logger(...)\<close> first looks up the attribute
    \<^verbatim>\<open>logger\<close>, which no instance has (the constructor sets \<^verbatim>\<open>_logger\<close>).
  \<^item> Line 71-72: with a truthy name, \<^verbatim>\<open>self.timers[self._name] += _elapsed_time\<close> reads
    the entry, adds, and stores.
  \<^item> Line 74 returns the difference.
  The logger branch always raises, so the statements after it run only without a logger.
  No statement of the method assigns \<^verbatim>\<open>_start_time\<close>.
\<close>

definition stop :: "state \<Rightarrow> (error + pyval) \<times> state" where
  "stop s =
     (case self_start_time (self s) of
        None \<Rightarrow> (Inl NotRunning, s)
      | Some t0 \<Rightarrow>
          (case py_sub (PyBuiltin ''perf_counter'') (PyFloat t0) of
             Inl e \<Rightarrow> (Inl e, s)
           | Inr elapsed_time \<Rightarrow>
               (if self_logger (self s) then (Inl (AttributeError ''logger''), s)
                else if truthy_name (self_name (self s)) then
                  (case dict_get (timers s) (the (self_name (self s))) of
                     None \<Rightarrow> (Inl (KeyError (the (self_name (self s)))), s)
                   | Some v \<Rightarrow>
                       (case py_add v elapsed_time of
                          Inl e \<Rightarrow> (Inl e, s)
                        | Inr v' \<Rightarrow>
                            (Inr elapsed_time,
                             s\<lparr> timers := dict_set (timers s) (the (self_name (self s))) v' \<rparr>)))
                else (Inr elapsed_time, s))))"

text \<open>
  A local variable that is read before any assignment raises \<^verbatim>\<open>UnboundLocalError\<close>. The
  second argument is the variable's binding at the point of the read.
\<close>

definition load_local :: "string \<Rightarrow> 'a option \<Rightarrow> error + 'a" where
  "load_local x binding =
     (case binding of None \<Rightarrow> Inl (UnboundLocalError x) | Some v \<Rightarrow> Inr v)"

text \<open>
  \<^verbatim>\<open>report_saved_timer\<close> (lines 76-93). The only statement of the \<^verbatim>\<open>try\<close> block is the
  augmented assignment \<^verbatim>\<open>_report += f"{self.name}: ..."\<close>. It reads the local \<^verbatim>\<open>_report\<close>
  first, and the function has not assigned it; after that read the right-hand side would
  look up the attribute \<^verbatim>\<open>name\<close>, which no instance has. The handler turns a \<^verbatim>\<open>KeyError\<close>,
  and nothing else, into \<^verbatim>\<open>TimerError\<close>.
\<close>

definition report_saved_timer :: "string \<Rightarrow> state \<Rightarrow> (error + pyval) \<times> state" where
  "report_saved_timer name s =
     (let attempt =
            (case load_local ''_report'' (None :: pyval option) of
               Inl e \<Rightarrow> Inl e
             | Inr r \<Rightarrow> (Inl (AttributeError ''name'') :: error + pyval))
      in case attempt of
           Inl (KeyError k) \<Rightarrow> (Inl (UnknownTimer name), s)
         | Inl e \<Rightarrow> (Inl e, s)
         | Inr r \<Rightarrow> (Inr r, s))"

text \<open>
  The loop of \<^verbatim>\<open>report\<close> (lines 113-114): one line \<^verbatim>\<open>f"{key}: {value}\n"\<close> is appended to
  \<^verbatim>\<open>_report\<close> for each item, in the dictionary's order.
\<close>

fun report_loop :: "(real \<Rightarrow> string) \<Rightarrow> pydict \<Rightarrow> string \<Rightarrow> string" where
  "report_loop fstr [] acc = acc"
| "report_loop fstr ((key, v) # items) acc =
     report_loop fstr items (acc @ key @ '': '' @ py_str fstr v @ [CHR 0x0A])"

text \<open>
  \<^verbatim>\<open>report\<close> (lines 95-119). In the last branch \<^verbatim>\<open>_report += self.stop()\<close> adds what
  \<^verbatim>\<open>stop\<close> returns to the string \<^verbatim>\<open>_report\<close>, which is still empty.
\<close>

definition report :: "(real \<Rightarrow> string) \<Rightarrow> string option \<Rightarrow> state \<Rightarrow> (error + pyval) \<times> state" where
  "report fstr name s =
     (case name of
        Some n \<Rightarrow> report_saved_timer n s
      | None \<Rightarrow>
          (if timers s \<noteq> [] then (Inr (PyStr (report_loop fstr (timers s) [])), s)
           else
             (case stop s of
                (Inl e, s') \<Rightarrow> (Inl e, s')
              | (Inr v, s') \<Rightarrow>
                  (case py_add (PyStr []) v of
                     Inl e \<Rightarrow> (Inl e, s')
                   | Inr r \<Rightarrow> (Inr r, s')))))"

subsection \<open>Context manager and decorator\<close>

text \<open>
  \<^verbatim>\<open>__enter__\<close> (lines 26-29) calls \<^verbatim>\<open>start\<close>; \<^verbatim>\<open>__exit__\<close> (lines 31-33) calls \<^verbatim>\<open>stop\<close>,
  drops its value and returns \<^verbatim>\<open>None\<close>.
\<close>

definition enter :: "real \<Rightarrow> state \<Rightarrow> (error + unit) \<times> state" where
  "enter now s = start now s"

definition exit :: "state \<Rightarrow> (error + unit) \<times> state" where
  "exit s = (case stop s of (Inl e, s') \<Rightarrow> (Inl e, s') | (Inr v, s') \<Rightarrow> (Inr (), s'))"

text \<open>
  The statement \<^verbatim>\<open>with self: body\<close>. If \<^verbatim>\<open>__enter__\<close> raises, neither the body nor
  \<^verbatim>\<open>__exit__\<close> runs. Otherwise the body runs and then \<^verbatim>\<open>__exit__\<close>, however the body ended.
  An exception raised by \<^verbatim>\<open>__exit__\<close> itself is the outcome of the statement; when
  \<^verbatim>\<open>__exit__\<close> returns, its value \<^verbatim>\<open>None\<close> is false, so the body's exception is re-raised
  or the body's value is the outcome. The body is any computation on the state.
\<close>

definition with_self ::
  "real \<Rightarrow> (state \<Rightarrow> (error + 'a) \<times> state) \<Rightarrow> state \<Rightarrow> (error + 'a) \<times> state" where
  "with_self now body s =
     (case enter now s of
        (Inl e, s1) \<Rightarrow> (Inl e, s1)
      | (Inr u, s1) \<Rightarrow>
          (case body s1 of
             (r, s2) \<Rightarrow>
               (case exit s2 of
                  (Inl e, s3) \<Rightarrow> (Inl e, s3)
                | (Inr u', s3) \<Rightarrow> (r, s3))))"

text \<open>
  \<^verbatim>\<open>__call__\<close> (lines 35-42) returns \<^verbatim>\<open>wrapper_timer\<close>, which runs
  \<^verbatim>\<open>return funcion(*args, **kwargs)\<close> inside \<^verbatim>\<open>with self\<close>. The argument \<open>funcion\<close> is the
  decorated function already applied to the arguments of the invocation.
\<close>

definition call ::
  "(state \<Rightarrow> (error + 'a) \<times> state) \<Rightarrow> real \<Rightarrow> state \<Rightarrow> (error + 'a) \<times> state" where
  "call funcion = (\<lambda>now s. with_self now funcion s)"

subsection \<open>Programs that use several timers\<close>

text \<open>
  All instances share the one dictionary. A client program is a sequence of operations on
  the instances it has constructed, numbered in order of construction. An operation that
  raises leaves the state the method had reached, and the client carries on.
\<close>

record world =
  registry :: pydict
  instances :: "timer list"

datatype op =
    New "string option" string bool
  | Start nat real
  | Stop nat
  | Report nat "string option"

definition initial :: world where
  "initial = \<lparr> registry = [], instances = [] \<rparr>"

definition on_instance :: "nat \<Rightarrow> (state \<Rightarrow> 'r \<times> state) \<Rightarrow> world \<Rightarrow> world" where
  "on_instance i m w =
     (if i < length (instances w) then
        (let s' = snd (m \<lparr> timers = registry w, self = instances w ! i \<rparr>)
         in \<lparr> registry = timers s', instances = (instances w)[i := self s'] \<rparr>)
      else w)"

fun step :: "(real \<Rightarrow> string) \<Rightarrow> world \<Rightarrow> op \<Rightarrow> world" where
  "step fstr w (New name text logger) =
     (let s = init name text logger (registry w)
      in \<lparr> registry = timers s, instances = instances w @ [self s] \<rparr>)"
| "step fstr w (Start i now) = on_instance i (start now) w"
| "step fstr w (Stop i) = on_instance i stop w"
| "step fstr w (Report i name) = on_instance i (report fstr name) w"

definition run :: "(real \<Rightarrow> string) \<Rightarrow> op list \<Rightarrow> world \<Rightarrow> world" where
  "run fstr ops w = foldl (step fstr) w ops"

text \<open>A value is a non-negative number; a dictionary holds only such values.\<close>

fun nonneg :: "pyval \<Rightarrow> bool" where
  "nonneg (PyInt i) = (0 \<le> i)"
| "nonneg (PyFloat r) = (0 \<le> r)"
| "nonneg (PyStr s) = False"
| "nonneg (PyBuiltin f) = False"

definition registry_nonneg :: "pydict \<Rightarrow> bool" where
  "registry_nonneg d = (\<forall>(k, v) \<in> set d. nonneg v)"

text \<open>The default of the constructor's \<^verbatim>\<open>text\<close> argument.\<close>

definition default_text :: string where
  "default_text = ''Task took: {:0.6f} seconds.''"

section \<open>Properties\<close>

subsection \<open>What \<^verbatim>\<open>stop\<close> and \<^verbatim>\<open>report_saved_timer\<close> do\<close>

lemma stop_idle:
  "self_start_time (self s) = None \<Longrightarrow> stop s = (Inl NotRunning, s)"
  by (simp add: stop_def)

lemma stop_running:
  "self_start_time (self s) = Some t0 \<Longrightarrow> stop s = (Inl TypeError, s)"
  by (simp add: stop_def)

lemma stop_outcome:
  "stop s = (Inl (if self_start_time (self s) = None then NotRunning else TypeError), s)"
  by (cases "self_start_time (self s)") (simp_all add: stop_idle stop_running)

lemma report_saved_timer_raises:
  "report_saved_timer name s = (Inl (UnboundLocalError ''_report''), s)"
  by (simp add: report_saved_timer_def load_local_def)

lemma report_loop_acc:
  "report_loop fstr d acc =
     acc @ concat (map (\<lambda>(key, v). key @ '': '' @ py_str fstr v @ [CHR 0x0A]) d)"
  by (induction d arbitrary: acc) auto

lemma start_idle:
  "self_start_time (self s) = None \<Longrightarrow>
     start now s = (Inr (), s\<lparr> self := (self s)\<lparr> self_start_time := Some now \<rparr> \<rparr>)"
  by (simp add: start_def)

lemma start_running:
  "self_start_time (self s) \<noteq> None \<Longrightarrow> start now s = (Inl AlreadyRunning, s)"
  by (simp add: start_def)

lemma stop_state: "snd (stop s) = s"
  by (simp add: stop_outcome)

lemma report_lines:
  "timers s \<noteq> [] \<Longrightarrow>
     report fstr None s =
       (Inr (PyStr (concat (map (\<lambda>(key, v). key @ '': '' @ py_str fstr v @ [CHR 0x0A])
                                (timers s)))), s)"
  by (simp add: report_def report_loop_acc)

lemma report_fallback_idle:
  "timers s = [] \<Longrightarrow> self_start_time (self s) = None \<Longrightarrow>
     report fstr None s = (Inl NotRunning, s)"
  by (simp add: report_def stop_outcome)

lemma report_state: "snd (report fstr name s) = s"
  by (cases name) (simp_all add: report_def report_saved_timer_raises stop_outcome)

lemma start_timers: "timers (snd (start now s)) = timers s"
  by (simp add: start_def)

subsection \<open>Sequences of operations and the dictionary\<close>

lemma on_instance_registry:
  assumes "\<And>s. timers (snd (m s)) = timers s"
  shows "registry (on_instance i m w) = registry w"
  using assms by (simp add: on_instance_def Let_def)

lemma setdefault_nonneg:
  "registry_nonneg d \<Longrightarrow> nonneg v \<Longrightarrow> registry_nonneg (setdefault d k v)"
  by (auto simp: registry_nonneg_def setdefault_def split: option.splits)

lemma step_nonneg:
  "registry_nonneg (registry w) \<Longrightarrow> registry_nonneg (registry (step fstr w x))"
proof (cases x)
  case (New nm tx lg)
  assume "registry_nonneg (registry w)"
  then show ?thesis
    using New by (simp add: init_def Let_def setdefault_nonneg)
next
  case (Start i now)
  assume "registry_nonneg (registry w)"
  then show ?thesis
    using Start by (simp add: on_instance_registry start_timers)
next
  case (Stop i)
  assume "registry_nonneg (registry w)"
  then show ?thesis
    using Stop by (simp add: on_instance_registry stop_state)
next
  case (Report i name)
  assume "registry_nonneg (registry w)"
  then show ?thesis
    using Report by (simp add: on_instance_registry report_state)
qed

subsection \<open>The guards of the two-state machine\<close>

text \<open>
  Claim C1. \<^verbatim>\<open>start()\<close> on a running timer raises the \<^verbatim>\<open>TimerError\<close> "Timer is running"
  and \<^verbatim>\<open>stop()\<close> on an idle timer raises the \<^verbatim>\<open>TimerError\<close> "Timer is not running", both
  leaving the state as it was. In particular, of two \<^verbatim>\<open>start()\<close> calls in a row the second
  always fails, with "Timer is running"; and of two \<^verbatim>\<open>stop()\<close> calls in a row the second
  always fails: with "Timer is not running" when the timer was idle before the first,
  with \<^verbatim>\<open>TypeError\<close> when it was running.
\<close>

theorem start_stop_guards:
  "(self_start_time (self s) \<noteq> None \<longrightarrow> start now s = (Inl AlreadyRunning, s)) \<and>
   (self_start_time (self s) = None \<longrightarrow> stop s = (Inl NotRunning, s)) \<and>
   fst (start now' (snd (start now s))) = Inl AlreadyRunning \<and>
   fst (stop (snd (stop s))) =
     Inl (if self_start_time (self s) = None then NotRunning else TypeError)"
proof -
  have twice: "fst (start now' (snd (start now s))) = Inl AlreadyRunning"
    by (simp add: start_def)
  have stops: "fst (stop (snd (stop s))) =
      Inl (if self_start_time (self s) = None then NotRunning else TypeError)"
    by (simp add: stop_outcome)
  show ?thesis
    using twice stops by (simp add: start_running stop_idle)
qed

theorem start_stop_guards_witness:
  "start 2 (snd (start 1 (init None default_text False []))) =
     (Inl AlreadyRunning, snd (start 1 (init None default_text False []))) \<and>
   stop (init None default_text False []) = (Inl NotRunning, init None default_text False []) \<and>
   fst (stop (snd (stop (init None default_text False [])))) = Inl NotRunning \<and>
   fst (stop (snd (stop (snd (start 1 (init None default_text False [])))))) = Inl TypeError"
  using start_stop_guards [of "snd (start 1 (init None default_text False []))" 2 3]
    start_stop_guards [of "init None default_text False []" 1 2]
  by (simp add: init_def start_def)

subsection \<open>A running timer cannot be stopped\<close>

text \<open>
  Claim C2 says that \<^verbatim>\<open>stop()\<close> on a running timer returns the elapsed time and leaves the
  timer idle. The code does neither. On the unnamed timer constructed with the defaults and
  started at clock reading 1, \<^verbatim>\<open>stop()\<close> raises \<^verbatim>\<open>TypeError\<close> at line 66, where the float
  \<^verbatim>\<open>_start_time\<close> is subtracted from the function \<^verbatim>\<open>time.perf_counter\<close>, and the state is
  what it was before the call: \<^verbatim>\<open>_start_time\<close> still holds the reading 1.
\<close>

theorem stop_running_timer_raises:
  "stop (snd (start 1 (init None default_text False []))) =
     (Inl TypeError, snd (start 1 (init None default_text False []))) \<and>
   self_start_time (self (snd (stop (snd (start 1 (init None default_text False [])))))) = Some 1"
  by (simp add: init_def start_def stop_outcome)

text \<open>
  Claim C3 says that each \<^verbatim>\<open>start(); stop()\<close> cycle of a named timer adds the elapsed time
  to the entry of its name. In the code the first \<^verbatim>\<open>stop()\<close> of the timer named "x" raises
  \<^verbatim>\<open>TypeError\<close> before it reaches the addition of line 72, and after three cycles (started
  at the readings 1, 2 and 3) the dictionary still maps "x" to the integer 0 that the
  constructor stored.
\<close>

theorem three_cycles_leave_zero:
  "fst (stop (snd (start 1 (init (Some ''x'') default_text False [])))) = Inl TypeError \<and>
   registry (run fstr [New (Some ''x'') default_text False,
                       Start 0 1, Stop 0, Start 0 2, Stop 0, Start 0 3, Stop 0] initial) =
     [(''x'', PyInt 0)]"
  by (simp add: run_def initial_def on_instance_def init_def start_def stop_outcome
                setdefault_def dict_get_def)

subsection \<open>Reporting\<close>

text \<open>
  Claim C4 says that \<^verbatim>\<open>report()\<close> without a name, when the dictionary is empty, falls back
  to stopping the timer and returns what \<^verbatim>\<open>stop()\<close> returns. In the code, on the unnamed
  timer constructed with the defaults and started at clock reading 1, with the dictionary
  empty, \<^verbatim>\<open>report()\<close> raises the \<^verbatim>\<open>TypeError\<close> of line 66 through its call of \<^verbatim>\<open>stop\<close> on
  line 117: nothing is returned, and the timer is still running with \<^verbatim>\<open>_start_time\<close> 1.
\<close>

theorem report_fallback_running_raises:
  "timers (snd (start 1 (init None default_text False []))) = [] \<and>
   report fstr None (snd (start 1 (init None default_text False []))) =
     (Inl TypeError, snd (start 1 (init None default_text False []))) \<and>
   self_start_time
     (self (snd (report fstr None (snd (start 1 (init None default_text False [])))))) =
     Some 1"
  by (simp add: report_def init_def start_def stop_outcome)

text \<open>
  Claim C5 says that \<^verbatim>\<open>report(name)\<close> returns \<^verbatim>\<open>"<name>: <rendered duration>"\<close> and raises the
  \<^verbatim>\<open>TimerError\<close> "No timer called ... found" exactly when the name has no entry. In the
  code, after \<^verbatim>\<open>Timer("x")\<close> has been constructed, \<^verbatim>\<open>report("x")\<close> raises
  \<^verbatim>\<open>UnboundLocalError\<close> although "x" has the entry 0, and \<^verbatim>\<open>report("y")\<close> raises
  \<^verbatim>\<open>UnboundLocalError\<close>, not \<^verbatim>\<open>TimerError\<close>, although "y" has no entry.
\<close>

theorem report_named_raises_UnboundLocalError:
  "report fstr (Some ''x'') (init (Some ''x'') default_text False []) =
     (Inl (UnboundLocalError ''_report''), init (Some ''x'') default_text False []) \<and>
   dict_get (timers (init (Some ''x'') default_text False [])) ''x'' = Some (PyInt 0) \<and>
   report fstr (Some ''y'') (init (Some ''x'') default_text False []) =
     (Inl (UnboundLocalError ''_report''), init (Some ''x'') default_text False []) \<and>
   dict_get (timers (init (Some ''x'') default_text False [])) ''y'' = None"
  by (simp add: report_def report_saved_timer_raises init_def setdefault_def dict_get_def)

subsection \<open>Context manager and decorator\<close>

text \<open>
  Claim C6 says that after a \<^verbatim>\<open>with\<close> block whose body raises, the timer is idle and the
  body's exception reaches the caller. In the code, with a fresh unnamed timer entered at
  clock reading 1 and a body that raises \<^verbatim>\<open>ValueError\<close>, the statement raises the
  \<^verbatim>\<open>TypeError\<close> of \<^verbatim>\<open>stop\<close>, called by \<^verbatim>\<open>__exit__\<close>, in place of the \<^verbatim>\<open>ValueError\<close>, and
  the timer is still running.
\<close>

theorem with_block_raising_body:
  "with_self 1 (\<lambda>s. (Inl (Raised ''ValueError'') :: error + unit, s))
       (init None default_text False []) =
     (Inl TypeError, snd (start 1 (init None default_text False []))) \<and>
   self_start_time (self (snd (start 1 (init None default_text False [])))) = Some 1"
  by (simp add: with_self_def enter_def exit_def init_def start_def stop_outcome)

text \<open>
  Claim C7 says that every invocation of a decorated function is one start/stop cycle
  around one call and returns the function's result. In the code, the first invocation of
  a decorated function that returns 42 raises \<^verbatim>\<open>TypeError\<close> (from \<^verbatim>\<open>stop\<close>, called by
  \<^verbatim>\<open>__exit__\<close>) and leaves the timer running; the second invocation raises the \<^verbatim>\<open>TimerError\<close>
  "Timer is running" from \<^verbatim>\<open>start\<close> and does not call the function.
\<close>

theorem wrapper_loses_result:
  "call (\<lambda>s. (Inr (42 :: int), s)) 1 (init None default_text False []) =
     (Inl TypeError, snd (start 1 (init None default_text False []))) \<and>
   call (\<lambda>s. (Inr (42 :: int), s)) 2 (snd (start 1 (init None default_text False []))) =
     (Inl AlreadyRunning, snd (start 1 (init None default_text False [])))"
  by (simp add: call_def with_self_def enter_def exit_def init_def start_def stop_outcome)

subsection \<open>Registration at construction\<close>

text \<open>
  Claim C8, as the code has it: registration is eager. Constructing a timer with a
  non-empty name that has no entry in the dictionary appends the entry of that name with
  value 0, and the new timer is idle: the entry exists before any \<^verbatim>\<open>start()\<close> or
  \<^verbatim>\<open>stop()\<close>.
\<close>

theorem construction_registers:
  "n \<noteq> [] \<Longrightarrow> dict_get d n = None \<Longrightarrow>
     timers (init (Some n) text logger d) = d @ [(n, PyInt 0)] \<and>
     dict_get (timers (init (Some n) text logger d)) n = Some (PyInt 0) \<and>
     self_start_time (self (init (Some n) text logger d)) = None"
  by (simp add: init_def setdefault_def dict_get_def map_add_def)

theorem construction_registers_witness:
  "timers (init (Some ''x'') default_text False [(''ab'', PyInt 0)]) =
     [(''ab'', PyInt 0), (''x'', PyInt 0)] \<and>
   dict_get (timers (init (Some ''x'') default_text False [(''ab'', PyInt 0)])) ''x'' =
     Some (PyInt 0)"
proof -
  have a: "''x'' \<noteq> []" by simp
  have b: "dict_get [(''ab'', PyInt 0)] ''x'' = None" by (simp add: dict_get_def)
  show ?thesis
    using construction_registers [OF a b, of default_text False] by (simp add: dict_get_def)
qed

text \<open>
  Against deferred registration: with an empty dictionary, constructing \<^verbatim>\<open>Timer("x")\<close> alone
  creates the entry "x" with value 0.
\<close>

theorem construction_registers_counterexample:
  "dict_get [] ''x'' = None \<and>
   dict_get (timers (init (Some ''x'') default_text False [])) ''x'' = Some (PyInt 0)"
  by (simp add: init_def setdefault_def dict_get_def)

subsection \<open>The dictionary never holds a negative value\<close>

text \<open>
  Claim C9. Whatever sequence of constructions and of \<^verbatim>\<open>start\<close>, \<^verbatim>\<open>stop\<close> and \<^verbatim>\<open>report\<close>
  calls a program runs, on any of its timers, a dictionary that holds only non-negative
  numbers holds only non-negative numbers afterwards. The dictionary is empty when the
  class is created.
\<close>

theorem registry_never_negative:
  "registry_nonneg (registry w) \<Longrightarrow> registry_nonneg (registry (run fstr ops w))"
proof (induction ops arbitrary: w)
  case Nil
  then show ?case by (simp add: run_def)
next
  case (Cons x xs)
  have "registry_nonneg (registry (step fstr w x))"
    using Cons.prems by (rule step_nonneg)
  then have "registry_nonneg (registry (run fstr xs (step fstr w x)))"
    by (rule Cons.IH)
  then show ?case by (simp add: run_def)
qed

theorem registry_never_negative_witness:
  "registry_nonneg (registry initial) \<and>
   registry_nonneg (registry (run (\<lambda>r. ''?'')
      [New (Some ''x'') default_text False, Start 0 1, Stop 0, New (Some ''y'') default_text True,
       Report 1 None, Stop 1] initial))"
proof -
  have a: "registry_nonneg (registry initial)"
    by (simp add: initial_def registry_nonneg_def)
  show ?thesis
    using a registry_never_negative [OF a] by simp
qed

subsection \<open>Reporting does not change the state\<close>

text \<open>
  Claim C10. \<^verbatim>\<open>report(name)\<close> with any name, and \<^verbatim>\<open>report()\<close> without a name while the
  dictionary is not empty, leave the dictionary and the timer (its \<^verbatim>\<open>_start_time\<close>
  included) as they were, whether the call returns or raises.
\<close>

theorem report_read_only:
  "name \<noteq> None \<or> timers s \<noteq> [] \<Longrightarrow> snd (report fstr name s) = s"
proof (cases name)
  case None
  assume "name \<noteq> None \<or> timers s \<noteq> []"
  with None have "timers s \<noteq> []" by simp
  then show ?thesis using None by (simp add: report_def)
next
  case (Some n)
  then show ?thesis by (simp add: report_def report_saved_timer_raises)
qed

theorem report_read_only_witness:
  "snd (report (\<lambda>r. ''?'') (Some ''x'') (snd (start 1 (init None default_text False [])))) =
     snd (start 1 (init None default_text False [])) \<and>
   snd (report (\<lambda>r. ''?'') None (snd (start 1 (init (Some ''x'') default_text False [])))) =
     snd (start 1 (init (Some ''x'') default_text False []))"
proof -
  have a: "Some ''x'' \<noteq> None \<or> timers (snd (start 1 (init None default_text False []))) \<noteq> []"
    by simp
  have b: "(None :: string option) \<noteq> None \<or>
           timers (snd (start 1 (init (Some ''x'') default_text False []))) \<noteq> []"
    by (simp add: init_def start_def setdefault_def dict_get_def)
  show ?thesis
    using report_read_only [OF a] report_read_only [OF b] by simp
qed

end
